theory Spec2Isabelle
  imports Complex_Main
begin

section \<open>Strings\<close>

text \<open>
  Go strings are modelled as HOL strings. The functions of package \<open>strings\<close> that
  the program uses are given on ASCII text, where they act on single bytes:
  \<open>ToLower\<close> and \<open>ToUpper\<close> map the letters \<open>A..Z\<close> and \<open>a..z\<close> onto each other and leave
  every other byte alone, \<open>TrimSpace\<close> removes leading and trailing tab, line feed, vertical tab, form
  feed, carriage return and space, and \<open>Contains\<close> looks for a contiguous occurrence.
  Scores and probabilities (float64 in the source) are modelled as reals: the program only
  compares finite scores and copies literal constants.
\<close>

definition upperLetters :: string where
  "upperLetters = ''ABCDEFGHIJKLMNOPQRSTUVWXYZ''"

definition lowerLetters :: string where
  "lowerLetters = ''abcdefghijklmnopqrstuvwxyz''"

definition toLowerByte :: "char \<Rightarrow> char" where
  "toLowerByte c = (case map_of (zip upperLetters lowerLetters) c of Some d \<Rightarrow> d | None \<Rightarrow> c)"

definition toUpperByte :: "char \<Rightarrow> char" where
  "toUpperByte c = (case map_of (zip lowerLetters upperLetters) c of Some d \<Rightarrow> d | None \<Rightarrow> c)"

definition ToLower :: "string \<Rightarrow> string" where
  "ToLower s = map toLowerByte s"

definition ToUpper :: "string \<Rightarrow> string" where
  "ToUpper s = map toUpperByte s"

definition isSpace :: "char \<Rightarrow> bool" where
  "isSpace c = (c \<in> set [CHR 0x09, CHR 0x0A, CHR 0x0B, CHR 0x0C, CHR 0x0D, CHR '' ''])"

definition TrimSpace :: "string \<Rightarrow> string" where
  "TrimSpace s = rev (dropWhile isSpace (rev (dropWhile isSpace s)))"

fun HasPrefix :: "string \<Rightarrow> string \<Rightarrow> bool" where
  "HasPrefix s [] = True"
| "HasPrefix [] (p # ps) = False"
| "HasPrefix (c # cs) (p # ps) = (c = p \<and> HasPrefix cs ps)"

fun Contains :: "string \<Rightarrow> string \<Rightarrow> bool" where
  "Contains [] sub = (sub = [])"
| "Contains (c # cs) sub = (HasPrefix (c # cs) sub \<or> Contains cs sub)"

section \<open>Data model (pkg/appcore/appcore.go)\<close>

text \<open>Time stamps are natural numbers; 0 is the zero time of \<open>time.Time\<close>.\<close>

record ApiPredictRequest =
  req_NLSScore :: "int option"
  req_FeedbackText :: string

record ApiResponse =
  resp_CustomerID :: string
  resp_ChurnProbability :: real
  resp_Reason :: string
  resp_CommentSentiment :: string
  resp_CommentTopics :: "string list"

record CustomerData =
  cd_ID :: string
  cd_NLSScore :: int
  cd_Feedback :: string
  cd_CreatedAt :: nat
  cd_CommentSentiment :: string
  cd_CommentTopics :: "string list"

record ChurnPrediction =
  cp_ID :: string
  cp_CustomerID :: string
  cp_ChurnProbability :: real
  cp_Reason :: string
  cp_PredictedAt :: nat

definition SentimentModelID :: string where
  "SentimentModelID = ''distilbert-base-uncased-finetuned-sst-2-english''"

definition ZeroShotModelID :: string where
  "ZeroShotModelID = ''facebook/bart-large-mnli''"

definition TopicScoreThreshold :: real where
  "TopicScoreThreshold = 0.8"

section \<open>The scoring engine: PredictChurn\<close>

definition negativeKeywords :: "string list" where
  "negativeKeywords = [''bad'', ''poor'', ''terrible'', ''unhappy'']"

text \<open>The keyword loop of \<open>PredictChurn\<close>: it stops at the first keyword found.\<close>

fun keyword_loop :: "string \<Rightarrow> string list \<Rightarrow> bool" where
  "keyword_loop fb [] = False"
| "keyword_loop fb (keyword # rest) =
     (if Contains (ToLower fb) keyword then True else keyword_loop fb rest)"

definition emptyPrediction :: ChurnPrediction where
  "emptyPrediction =
     \<lparr>cp_ID = [], cp_CustomerID = [], cp_ChurnProbability = 0, cp_Reason = [],
      cp_PredictedAt = 0\<rparr>"

text \<open>\<open>now\<close> is the value that \<open>time.Now()\<close> returns inside the call.\<close>

definition PredictChurn :: "nat \<Rightarrow> CustomerData \<Rightarrow> ChurnPrediction" where
  "PredictChurn now data =
     (let prediction = emptyPrediction;
          hasNegativeFeedback =
            (if cd_Feedback data \<noteq> [] then keyword_loop (cd_Feedback data) negativeKeywords
             else False);
          isNegativeSentiment = (ToUpper (cd_CommentSentiment data) = ''NEGATIVE'');
          prediction =
            (if (cd_NLSScore data < 5 \<and> hasNegativeFeedback)
                \<or> (cd_NLSScore data < 3 \<and> isNegativeSentiment)
             then prediction\<lparr>cp_ChurnProbability := 0.8,
                    cp_Reason := ''Low NLS score and/or negative feedback/sentiment.''\<rparr>
             else if cd_NLSScore data \<ge> 8
             then prediction\<lparr>cp_ChurnProbability := 0.1, cp_Reason := ''High NLS score.''\<rparr>
             else prediction\<lparr>cp_ChurnProbability := 0.4,
                    cp_Reason := ''Moderate NLS score or neutral feedback/sentiment.''\<rparr>)
      in prediction\<lparr>cp_PredictedAt := now\<rparr>)"

section \<open>The environment of one request\<close>

text \<open>
  The program talks to two external services. Within one request each of the four remote
  operations is attempted at most once, so the environment of a request is the reply that
  each attempt would receive, together with the outcome of the one-time initialisation.

  \<^item> \<open>CallHuggingFaceAPI\<close> followed by \<open>json.Unmarshal\<close> either fails in the call
    (\<open>TransportError\<close>: no token, no connection, a status other than 200), or fails in the
    decoding (\<open>Malformed\<close>), or yields the decoded value (\<open>Parsed\<close>).
  \<^item> An insert into \<open>customer_feedback\<close> either fails in \<open>Execute\<close> (\<open>ExecError\<close>, nothing is
    stored), or stores the row under a store-assigned identifier and replies with a body that
    does not decode (\<open>StoredBadReply\<close>), that decodes to no rows (\<open>StoredNoRows\<close>) or whose
    first row carries the identifier (\<open>Stored\<close>).
  \<^item> An insert into \<open>churn_predictions\<close> is either refused by the service or accepted by it;
    an accepted row is still subject to the foreign key of \<open>schema.sql\<close>.
\<close>

datatype 'a api_reply = TransportError | Malformed | Parsed 'a

datatype insert_reply =
    ExecError
  | StoredBadReply string
  | StoredNoRows string
  | Stored string

record env =
  init_error :: "string option"
  sentiment_reply :: "(string \<times> real) list list api_reply"
  zeroshot_reply :: "(string list \<times> real list) api_reply"
  feedback_reply :: insert_reply
  prediction_accepted :: bool

text \<open>
  What a request can change: the two tables, the clock, the list of remote calls made
  (requests to the inference endpoint with model and input, inserts with the table name)
  and the list of \<open>appcore\<close> operations that the handler has entered, in order.
\<close>

datatype remote_call = HFRequest string string | DBInsert string

datatype step = GetSentiment | GetTopics | StoreFeedback | Scoring | StorePrediction

record world =
  customer_feedback :: "CustomerData list"
  churn_predictions :: "ChurnPrediction list"
  clock :: nat
  remote :: "remote_call list"
  steps :: "step list"

definition time_Now :: "world \<Rightarrow> nat \<times> world" where
  "time_Now w = (Suc (clock w), w\<lparr>clock := Suc (clock w)\<rparr>)"

definition call_remote :: "remote_call \<Rightarrow> world \<Rightarrow> world" where
  "call_remote c w = w\<lparr>remote := remote w @ [c]\<rparr>"

definition enter :: "step \<Rightarrow> world \<Rightarrow> world" where
  "enter s w = w\<lparr>steps := steps w @ [s]\<rparr>"

datatype error =
    SentimentCallFailed
  | SentimentUnmarshalFailed
  | SentimentResponseEmpty
  | TopicCallFailed
  | TopicUnmarshalFailed
  | ClientNotInitialized
  | StoreCustomerFailed
  | CustomerUnmarshalFailed
  | NoDataReturned
  | StorePredictionFailed

section \<open>Enrichment: GetSentimentFromHF and GetTopicsFromHF\<close>

text \<open>The selection loop of \<open>GetSentimentFromHF\<close>, started with score 0 and label NEUTRAL.\<close>

fun sentiment_loop :: "(string \<times> real) list \<Rightarrow> real \<Rightarrow> string \<Rightarrow> string" where
  "sentiment_loop [] highestScore bestLabel = bestLabel"
| "sentiment_loop ((label, score) # rest) highestScore bestLabel =
     (if score > highestScore then sentiment_loop rest score label
      else sentiment_loop rest highestScore bestLabel)"

definition GetSentimentFromHF ::
  "env \<Rightarrow> string \<Rightarrow> world \<Rightarrow> (string \<times> error option) \<times> world" where
  "GetSentimentFromHF e feedbackText w =
     (if TrimSpace feedbackText = [] then ((''NEUTRAL'', None), w)
      else
        let w1 = call_remote (HFRequest SentimentModelID feedbackText) w in
        case sentiment_reply e of
          TransportError \<Rightarrow> ((''UNKNOWN'', Some SentimentCallFailed), w1)
        | Malformed \<Rightarrow> ((''UNKNOWN'', Some SentimentUnmarshalFailed), w1)
        | Parsed sentimentResponse \<Rightarrow>
            (case sentimentResponse of
               [] \<Rightarrow> ((''UNKNOWN'', Some SentimentResponseEmpty), w1)
             | first # others \<Rightarrow>
                 if first = [] then ((''UNKNOWN'', Some SentimentResponseEmpty), w1)
                 else ((sentiment_loop first 0 ''NEUTRAL'', None), w1)))"

text \<open>
  The extraction loop of \<open>GetTopicsFromHF\<close>. It runs only when there are as many scores as
  labels, so the two lists are walked together. A nil slice and an empty slice are both the
  empty list: the program only ranges over the topics and serialises them with
  \<open>omitempty\<close>.
\<close>

fun topic_loop :: "string list \<Rightarrow> real list \<Rightarrow> string list" where
  "topic_loop (label # labels) (score # scores) =
     (if score > TopicScoreThreshold then label # topic_loop labels scores
      else topic_loop labels scores)"
| "topic_loop labels scores = []"

definition GetTopicsFromHF ::
  "env \<Rightarrow> string \<Rightarrow> string list \<Rightarrow> world \<Rightarrow> (string list \<times> error option) \<times> world" where
  "GetTopicsFromHF e feedbackText candidateTopics w =
     (if TrimSpace feedbackText = [] \<or> length candidateTopics = 0 then (([], None), w)
      else
        let w1 = call_remote (HFRequest ZeroShotModelID feedbackText) w in
        case zeroshot_reply e of
          TransportError \<Rightarrow> (([], Some TopicCallFailed), w1)
        | Malformed \<Rightarrow> (([], Some TopicUnmarshalFailed), w1)
        | Parsed zeroShotResponse \<Rightarrow>
            (let labels = fst zeroShotResponse; scores = snd zeroShotResponse in
             if length labels > 0 \<and> length scores = length labels
             then ((topic_loop labels scores, None), w1)
             else (([], None), w1)))"

section \<open>Persistence: the store of schema.sql, StoreCustomerData, StoreChurnPrediction\<close>

text \<open>
  The store keeps the rows it accepted. A row of \<open>churn_predictions\<close> references a row of
  \<open>customer_feedback\<close> (\<open>REFERENCES public.customer_feedback(id)\<close>): the store refuses a
  prediction whose \<open>customer_feedback_id\<close> names no feedback row, and deleting a feedback
  row deletes the predictions that reference it (\<open>ON DELETE CASCADE\<close>).
\<close>

definition feedback_ids :: "world \<Rightarrow> string set" where
  "feedback_ids w = cd_ID ` set (customer_feedback w)"

definition db_insert_feedback :: "string \<Rightarrow> CustomerData \<Rightarrow> world \<Rightarrow> world" where
  "db_insert_feedback new_id row w =
     w\<lparr>customer_feedback := customer_feedback w @ [row\<lparr>cd_ID := new_id\<rparr>]\<rparr>"

definition db_insert_prediction :: "ChurnPrediction \<Rightarrow> world \<Rightarrow> bool \<times> world" where
  "db_insert_prediction row w =
     (if cp_CustomerID row \<in> feedback_ids w
      then (True, w\<lparr>churn_predictions := churn_predictions w @ [row]\<rparr>)
      else (False, w))"

definition db_delete_feedback :: "string \<Rightarrow> world \<Rightarrow> world" where
  "db_delete_feedback i w =
     w\<lparr>customer_feedback := filter (\<lambda>r. cd_ID r \<noteq> i) (customer_feedback w),
       churn_predictions := filter (\<lambda>p. cp_CustomerID p \<noteq> i) (churn_predictions w)\<rparr>"

text \<open>
  \<open>SupabaseClient\<close> is set by \<open>InitClients\<close>; it is non-nil exactly when the initialisation
  returned no error.
\<close>

definition SupabaseClient_nil :: "env \<Rightarrow> bool" where
  "SupabaseClient_nil e = (init_error e \<noteq> None)"

definition StoreCustomerData ::
  "env \<Rightarrow> CustomerData \<Rightarrow> world \<Rightarrow> (string \<times> error option) \<times> world" where
  "StoreCustomerData e data w =
     (if SupabaseClient_nil e then (([], Some ClientNotInitialized), w)
      else
        let (data, w) =
              (if cd_CreatedAt data = 0
               then (let (now, w1) = time_Now w in (data\<lparr>cd_CreatedAt := now\<rparr>, w1))
               else (data, w));
            w = call_remote (DBInsert ''customer_feedback'') w
        in case feedback_reply e of
             ExecError \<Rightarrow> (([], Some StoreCustomerFailed), w)
           | StoredBadReply i \<Rightarrow>
               (([], Some CustomerUnmarshalFailed), db_insert_feedback i data w)
           | StoredNoRows i \<Rightarrow> (([], Some NoDataReturned), db_insert_feedback i data w)
           | Stored i \<Rightarrow> ((i, None), db_insert_feedback i data w))"

definition StoreChurnPrediction ::
  "env \<Rightarrow> ChurnPrediction \<Rightarrow> world \<Rightarrow> error option \<times> world" where
  "StoreChurnPrediction e prediction w =
     (if SupabaseClient_nil e then (Some ClientNotInitialized, w)
      else
        let (prediction, w) =
              (if cp_PredictedAt prediction = 0
               then (let (now, w1) = time_Now w in (prediction\<lparr>cp_PredictedAt := now\<rparr>, w1))
               else (prediction, w));
            w = call_remote (DBInsert ''churn_predictions'') w
        in if \<not> prediction_accepted e then (Some StorePredictionFailed, w)
           else (let (ok, w1) = db_insert_prediction prediction w in
                 if ok then (None, w1) else (Some StorePredictionFailed, w1)))"

section \<open>The orchestrator: PredictHandler (package handler)\<close>

text \<open>
  A request is its method and what \<open>json.NewDecoder(r.Body).Decode\<close> makes of its body.
  A response is the status code and the JSON value written.
\<close>

datatype body = InvalidJSON | Decoded ApiPredictRequest

record request =
  Method :: string
  Body :: body

datatype payload = ErrorBody string | ResultBody ApiResponse

type_synonym response = "nat \<times> payload"

definition RespondWithError :: "nat \<Rightarrow> string \<Rightarrow> response" where
  "RespondWithError code message = (code, ErrorBody message)"

definition RespondWithJSON :: "nat \<Rightarrow> ApiResponse \<Rightarrow> response" where
  "RespondWithJSON code p = (code, ResultBody p)"

definition candidateTopics :: "string list" where
  "candidateTopics =
     [''service'', ''product quality'', ''pricing'', ''customer support'', ''speed'',
      ''ease of use'']"

definition PredictHandler :: "env \<Rightarrow> request \<Rightarrow> world \<Rightarrow> response \<times> world" where
  "PredictHandler e r w =
     (case init_error e of
        Some err \<Rightarrow> (RespondWithError 500 (''Server initialization failed: '' @ err), w)
      | None \<Rightarrow>
     if SupabaseClient_nil e \<and> init_error e \<noteq> None
     then (RespondWithError 500
             ''Supabase client not available due to initialization error.'', w)
     else if Method r \<noteq> ''POST''
     then (RespondWithError 405 ''Only POST method is allowed.'', w)
     else case Body r of
        InvalidJSON \<Rightarrow> (RespondWithError 400 ''Invalid JSON request body.'', w)
      | Decoded req \<Rightarrow>
     (case req_NLSScore req of
        None \<Rightarrow> (RespondWithError 400 ''NLS score is required.'', w)
      | Some score \<Rightarrow>
     if score < 0 \<or> score > 10
     then (RespondWithError 400 ''NLS score must be between 0 and 10.'', w)
     else
       let ((sentiment, errSentiment), w) =
             GetSentimentFromHF e (req_FeedbackText req) (enter GetSentiment w);
           sentiment = (if errSentiment \<noteq> None then ''UNKNOWN'' else sentiment);
           ((topics, errTopics), w) =
             GetTopicsFromHF e (req_FeedbackText req) candidateTopics (enter GetTopics w);
           customerData =
             \<lparr>cd_ID = [], cd_NLSScore = score, cd_Feedback = req_FeedbackText req,
              cd_CreatedAt = 0, cd_CommentSentiment = sentiment, cd_CommentTopics = topics\<rparr>;
           ((customerID, err), w) = StoreCustomerData e customerData (enter StoreFeedback w)
       in if err \<noteq> None
          then (RespondWithError 500 ''Failed to store customer data.'', w)
          else
            let customerData = customerData\<lparr>cd_ID := customerID\<rparr>;
                (now, w) = time_Now (enter Scoring w);
                churnPrediction = PredictChurn now customerData;
                churnPrediction = churnPrediction\<lparr>cp_CustomerID := customerID\<rparr>;
                (err, w) = StoreChurnPrediction e churnPrediction (enter StorePrediction w)
            in if err \<noteq> None
               then (RespondWithError 500 ''Failed to store churn prediction.'', w)
               else (RespondWithJSON 200
                       \<lparr>resp_CustomerID = customerID,
                        resp_ChurnProbability = cp_ChurnProbability churnPrediction,
                        resp_Reason = cp_Reason churnPrediction,
                        resp_CommentSentiment = cd_CommentSentiment customerData,
                        resp_CommentTopics = cd_CommentTopics customerData\<rparr>, w)))"

section \<open>The rule tables\<close>

text \<open>
  The text matches when, lower-cased, it contains one of the four keywords. \<open>scored\<close> is
  the part of a prediction that the rules determine. \<open>spec_rule_table\<close> is the table of the
  specification, which compares the sentiment label with \<open>NEGATIVE\<close> as it is;
  \<open>code_rule_table\<close> compares the upper-cased label.
\<close>

definition keyword_match :: "string \<Rightarrow> bool" where
  "keyword_match text = (\<exists>k \<in> set negativeKeywords. Contains (ToLower text) k)"


definition code_rule_table :: "int \<Rightarrow> string \<Rightarrow> string \<Rightarrow> real \<times> string" where
  "code_rule_table rating text sentiment =
     (if (rating < 5 \<and> keyword_match text) \<or> (rating < 3 \<and> ToUpper sentiment = ''NEGATIVE'')
      then (0.8, ''Low NLS score and/or negative feedback/sentiment.'')
      else if rating \<ge> 8 then (0.1, ''High NLS score.'')
      else (0.4, ''Moderate NLS score or neutral feedback/sentiment.''))"

definition scored :: "ChurnPrediction \<Rightarrow> real \<times> string" where
  "scored p = (cp_ChurnProbability p, cp_Reason p)"

section \<open>Notions used to state the enrichment properties\<close>



section \<open>Notions used to state the orchestration properties\<close>

text \<open>
  A request passes validation when the initialisation succeeded, the method is POST, the
  body decodes and the rating is present and within 0..10.

  For such a request the handler runs in two phases. \<open>after_enrichment\<close> is the world once
  both enrichment operations have returned and \<open>enriched\<close> is the \<open>customerData\<close> the
  handler then builds; \<open>persist_and_respond\<close> is the rest of the handler, from the call of
  \<open>StoreCustomerData\<close> on. Lemma \<open>PredictHandler_valid\<close> shows that the handler is the
  composition of the two.

  \<open>precedes a b xs\<close>: \<open>a\<close> occurs in \<open>xs\<close> and \<open>b\<close> occurs after its first occurrence.
  \<open>fk_ok\<close>: every stored prediction references a stored feedback row.
\<close>

definition valid_request :: "env \<Rightarrow> request \<Rightarrow> int \<Rightarrow> string \<Rightarrow> bool" where
  "valid_request e r score text =
     (init_error e = None \<and> Method r = ''POST''
      \<and> Body r = Decoded \<lparr>req_NLSScore = Some score, req_FeedbackText = text\<rparr>
      \<and> 0 \<le> score \<and> score \<le> 10)"

definition handler_sentiment :: "env \<Rightarrow> string \<Rightarrow> world \<Rightarrow> string" where
  "handler_sentiment e text w =
     (let (sentiment, errSentiment) = fst (GetSentimentFromHF e text (enter GetSentiment w))
      in if errSentiment \<noteq> None then ''UNKNOWN'' else sentiment)"

definition after_sentiment :: "env \<Rightarrow> string \<Rightarrow> world \<Rightarrow> world" where
  "after_sentiment e text w = snd (GetSentimentFromHF e text (enter GetSentiment w))"

definition handler_topics :: "env \<Rightarrow> string \<Rightarrow> world \<Rightarrow> string list" where
  "handler_topics e text w =
     fst (fst (GetTopicsFromHF e text candidateTopics
                 (enter GetTopics (after_sentiment e text w))))"

definition after_enrichment :: "env \<Rightarrow> string \<Rightarrow> world \<Rightarrow> world" where
  "after_enrichment e text w =
     snd (GetTopicsFromHF e text candidateTopics (enter GetTopics (after_sentiment e text w)))"

definition enriched :: "env \<Rightarrow> int \<Rightarrow> string \<Rightarrow> world \<Rightarrow> CustomerData" where
  "enriched e score text w =
     \<lparr>cd_ID = [], cd_NLSScore = score, cd_Feedback = text, cd_CreatedAt = 0,
      cd_CommentSentiment = handler_sentiment e text w,
      cd_CommentTopics = handler_topics e text w\<rparr>"

definition persist_and_respond :: "env \<Rightarrow> CustomerData \<Rightarrow> world \<Rightarrow> response \<times> world" where
  "persist_and_respond e customerData w =
     (let ((customerID, err), w) = StoreCustomerData e customerData (enter StoreFeedback w)
      in if err \<noteq> None
         then (RespondWithError 500 ''Failed to store customer data.'', w)
         else
           let customerData = customerData\<lparr>cd_ID := customerID\<rparr>;
               (now, w) = time_Now (enter Scoring w);
               churnPrediction = PredictChurn now customerData;
               churnPrediction = churnPrediction\<lparr>cp_CustomerID := customerID\<rparr>;
               (err, w) = StoreChurnPrediction e churnPrediction (enter StorePrediction w)
           in if err \<noteq> None
              then (RespondWithError 500 ''Failed to store churn prediction.'', w)
              else (RespondWithJSON 200
                      \<lparr>resp_CustomerID = customerID,
                       resp_ChurnProbability = cp_ChurnProbability churnPrediction,
                       resp_Reason = cp_Reason churnPrediction,
                       resp_CommentSentiment = cd_CommentSentiment customerData,
                       resp_CommentTopics = cd_CommentTopics customerData\<rparr>, w))"

definition stored_row :: "string \<Rightarrow> CustomerData \<Rightarrow> world \<Rightarrow> CustomerData" where
  "stored_row i customerData w = customerData\<lparr>cd_CreatedAt := Suc (clock w), cd_ID := i\<rparr>"

definition stored_prediction :: "string \<Rightarrow> CustomerData \<Rightarrow> world \<Rightarrow> ChurnPrediction" where
  "stored_prediction i customerData w =
     (PredictChurn (Suc (Suc (clock w))) (customerData\<lparr>cd_ID := i\<rparr>))\<lparr>cp_CustomerID := i\<rparr>"


definition fk_ok :: "world \<Rightarrow> bool" where
  "fk_ok w = (\<forall>p \<in> set (churn_predictions w). cp_CustomerID p \<in> feedback_ids w)"

text \<open>Concrete inputs used in the examples.\<close>

definition empty_world :: world where
  "empty_world =
     \<lparr>customer_feedback = [], churn_predictions = [], clock = 0, remote = [], steps = []\<rparr>"

definition healthy_env :: env where
  "healthy_env =
     \<lparr>init_error = None,
      sentiment_reply = Parsed [[(''NEGATIVE'', 0.97), (''POSITIVE'', 0.03)]],
      zeroshot_reply = Parsed ([''speed'', ''service''], [0.95, 0.4]),
      feedback_reply = Stored ''f-1'',
      prediction_accepted = True\<rparr>"

definition post :: "int option \<Rightarrow> string \<Rightarrow> request" where
  "post score text =
     \<lparr>Method = ''POST'', Body = Decoded \<lparr>req_NLSScore = score, req_FeedbackText = text\<rparr>\<rparr>"

section \<open>Properties\<close>


subsection \<open>Strings and the keyword test\<close>

lemmas string_defs =
  ToUpper_def ToLower_def toUpperByte_def toLowerByte_def upperLetters_def lowerLetters_def
  TrimSpace_def isSpace_def

lemma HasPrefix_iff: "HasPrefix s p \<longleftrightarrow> (\<exists>ys. s = p @ ys)"
  by (induction s p rule: HasPrefix.induct) auto

lemma Contains_iff: "Contains s sub \<longleftrightarrow> (\<exists>xs ys. s = xs @ sub @ ys)"
proof (induction s)
  case Nil
  show ?case by auto
next
  case (Cons c cs)
  have "(\<exists>xs ys. c # cs = xs @ sub @ ys) \<longleftrightarrow>
        (\<exists>ys. c # cs = sub @ ys) \<or> (\<exists>xs ys. cs = xs @ sub @ ys)"
  proof
    assume "\<exists>xs ys. c # cs = xs @ sub @ ys"
    then obtain xs ys where eq: "c # cs = xs @ sub @ ys" by blast
    show "(\<exists>ys. c # cs = sub @ ys) \<or> (\<exists>xs ys. cs = xs @ sub @ ys)"
    proof (cases xs)
      case Nil
      with eq show ?thesis by auto
    next
      case (Cons x xs')
      with eq have "cs = xs' @ sub @ ys" by simp
      then show ?thesis by blast
    qed
  next
    assume "(\<exists>ys. c # cs = sub @ ys) \<or> (\<exists>xs ys. cs = xs @ sub @ ys)"
    then show "\<exists>xs ys. c # cs = xs @ sub @ ys"
    proof
      assume "\<exists>ys. c # cs = sub @ ys"
      then obtain ys where "c # cs = [] @ sub @ ys" by auto
      then show ?thesis by blast
    next
      assume "\<exists>xs ys. cs = xs @ sub @ ys"
      then obtain xs ys where "c # cs = (c # xs) @ sub @ ys" by auto
      then show ?thesis by blast
    qed
  qed
  with Cons show ?case by (simp add: HasPrefix_iff)
qed

lemma keyword_loop_iff: "keyword_loop fb ks \<longleftrightarrow> (\<exists>k \<in> set ks. Contains (ToLower fb) k)"
  by (induction ks) auto

lemma keyword_guard:
  "(if fb \<noteq> [] then keyword_loop fb negativeKeywords else False) = keyword_match fb"
  by (cases fb) (simp_all add: keyword_match_def keyword_loop_iff negativeKeywords_def ToLower_def)

lemma PredictChurn_scored:
  "scored (PredictChurn now d) =
     code_rule_table (cd_NLSScore d) (cd_Feedback d) (cd_CommentSentiment d)"
  unfolding PredictChurn_def Let_def keyword_guard
  by (simp add: scored_def code_rule_table_def emptyPrediction_def)

subsection \<open>The scoring engine\<close>




text \<open>
  C10. Every sentiment label whose upper-casing is NEGATIVE satisfies the second half of
  rule 1: with a rating below 3 the prediction is 0.8 with the reason of rule 1, whatever
  the text.
\<close>

theorem C10_sentiment_case_insensitive:
  assumes "ToUpper (cd_CommentSentiment d) = ''NEGATIVE''" and "cd_NLSScore d < 3"
  shows "scored (PredictChurn now d) = (0.8, ''Low NLS score and/or negative feedback/sentiment.'')"
  using assms by (simp add: PredictChurn_scored code_rule_table_def)

theorem C10_witness:
  "ToUpper ''Negative'' = ''NEGATIVE'' \<and> ToUpper ''negative'' = ''NEGATIVE'' \<and> ''negative'' \<noteq> ''NEGATIVE'' \<and>
   scored (PredictChurn 1
      \<lparr>cd_ID = [], cd_NLSScore = 2, cd_Feedback = ''fine'', cd_CreatedAt = 0,
       cd_CommentSentiment = ''negative'', cd_CommentTopics = []\<rparr>)
   = (0.8, ''Low NLS score and/or negative feedback/sentiment.'')"
proof -
  have u: "ToUpper ''negative'' = ''NEGATIVE''" by (simp add: string_defs)
  have "ToUpper ''Negative'' = ''NEGATIVE''" by (simp add: string_defs)
  then show ?thesis
    using u C10_sentiment_case_insensitive [of "\<lparr>cd_ID = [], cd_NLSScore = 2, cd_Feedback = ''fine'', cd_CreatedAt = 0,
       cd_CommentSentiment = ''negative'', cd_CommentTopics = []\<rparr>" 1]
    by simp
qed


subsection \<open>Sentiment selection\<close>

lemma sentiment_loop_default:
  "\<forall>p \<in> set ps. snd p \<le> hi \<Longrightarrow> sentiment_loop ps hi best = best"
  by (induction ps hi best rule: sentiment_loop.induct) auto



lemma GetSentiment_parsed:
  "TrimSpace t \<noteq> [] \<Longrightarrow> sentiment_reply e = Parsed (first # others) \<Longrightarrow> first \<noteq> [] \<Longrightarrow>
   GetSentimentFromHF e t w =
     ((sentiment_loop first 0 ''NEUTRAL'', None), call_remote (HFRequest SentimentModelID t) w)"
  by (simp add: GetSentimentFromHF_def Let_def)


text \<open>
  C9. When the sentiment request succeeds with a non-empty list of pairs whose scores are
  all at most 0, \<open>GetSentimentFromHF\<close> returns the default label NEUTRAL and no error: a
  returned label is selected only if its score is strictly positive.
\<close>

theorem C9_nonpositive_scores:
  assumes "TrimSpace t \<noteq> []" and "sentiment_reply e = Parsed (first # others)"
    and "first \<noteq> []" and "\<forall>p \<in> set first. snd p \<le> 0"
  shows "fst (GetSentimentFromHF e t w) = (''NEUTRAL'', None)"
  using assms by (simp add: GetSentiment_parsed sentiment_loop_default)

theorem C9_witness:
  "TrimSpace ''slow'' \<noteq> [] \<and>
   fst (GetSentimentFromHF
         \<lparr>init_error = None,
          sentiment_reply = Parsed [[(''NEGATIVE'', 0), (''POSITIVE'', - 1)]],
          zeroshot_reply = TransportError, feedback_reply = ExecError,
          prediction_accepted = False\<rparr>
         ''slow''
         \<lparr>customer_feedback = [], churn_predictions = [], clock = 0, remote = [], steps = []\<rparr>)
     = (''NEUTRAL'', None)"
proof -
  have t: "TrimSpace ''slow'' \<noteq> []" by (simp add: string_defs)
  show ?thesis
    using t C9_nonpositive_scores [OF t, of
        "\<lparr>init_error = None,
          sentiment_reply = Parsed [[(''NEGATIVE'', 0), (''POSITIVE'', - 1)]],
          zeroshot_reply = TransportError, feedback_reply = ExecError,
          prediction_accepted = False\<rparr>"
        "[(''NEGATIVE'', 0), (''POSITIVE'', - 1)]" "[]"]
    by simp
qed




subsection \<open>Topic extraction\<close>








subsection \<open>The handler\<close>

lemma enter_simps [simp]:
  "steps (enter s w) = steps w @ [s]" "remote (enter s w) = remote w"
  "clock (enter s w) = clock w" "customer_feedback (enter s w) = customer_feedback w"
  "churn_predictions (enter s w) = churn_predictions w"
  by (simp_all add: enter_def)

lemma call_remote_simps [simp]:
  "steps (call_remote c w) = steps w" "remote (call_remote c w) = remote w @ [c]"
  "clock (call_remote c w) = clock w" "customer_feedback (call_remote c w) = customer_feedback w"
  "churn_predictions (call_remote c w) = churn_predictions w"
  by (simp_all add: call_remote_def)

lemma GetSentiment_world:
  "snd (GetSentimentFromHF e t w) =
     (if TrimSpace t = [] then w else call_remote (HFRequest SentimentModelID t) w)"
  by (simp add: GetSentimentFromHF_def Let_def split: api_reply.splits list.splits)

lemma GetTopics_world:
  "snd (GetTopicsFromHF e t candidateTopics w) =
     (if TrimSpace t = [] then w else call_remote (HFRequest ZeroShotModelID t) w)"
  by (simp add: GetTopicsFromHF_def Let_def candidateTopics_def split: api_reply.splits)

lemma after_enrichment_eq:
  "after_enrichment e t w =
     (if TrimSpace t = [] then enter GetTopics (enter GetSentiment w)
      else call_remote (HFRequest ZeroShotModelID t)
             (enter GetTopics (call_remote (HFRequest SentimentModelID t)
                (enter GetSentiment w))))"
  by (simp add: after_enrichment_def after_sentiment_def GetSentiment_world GetTopics_world)

lemma after_enrichment_simps [simp]:
  "steps (after_enrichment e t w) = steps w @ [GetSentiment, GetTopics]"
  "clock (after_enrichment e t w) = clock w"
  "customer_feedback (after_enrichment e t w) = customer_feedback w"
  "churn_predictions (after_enrichment e t w) = churn_predictions w"
  "remote (after_enrichment e t w) =
     remote w @ (if TrimSpace t = [] then []
                 else [HFRequest SentimentModelID t, HFRequest ZeroShotModelID t])"
  by (simp_all add: after_enrichment_eq)

lemma PredictHandler_valid:
  assumes "valid_request e r score t"
  shows "PredictHandler e r w =
           persist_and_respond e (enriched e score t w) (after_enrichment e t w)"
  using assms
  by (simp add: valid_request_def PredictHandler_def persist_and_respond_def enriched_def
      handler_sentiment_def handler_topics_def after_enrichment_def after_sentiment_def
      SupabaseClient_nil_def Let_def case_prod_beta)

lemma PredictChurn_PredictedAt [simp]: "cp_PredictedAt (PredictChurn now d) = now"
  by (simp add: PredictChurn_def Let_def)

lemmas persist_defs =
  persist_and_respond_def StoreCustomerData_def StoreChurnPrediction_def time_Now_def
  db_insert_feedback_def db_insert_prediction_def feedback_ids_def SupabaseClient_nil_def
  RespondWithError_def RespondWithJSON_def stored_row_def stored_prediction_def Let_def

lemma persist_steps:
  assumes "init_error e = None" and "cd_CreatedAt d = 0"
  shows "steps (snd (persist_and_respond e d w)) =
           steps w @ [StoreFeedback]
             @ (case feedback_reply e of Stored i \<Rightarrow> [Scoring, StorePrediction] | _ \<Rightarrow> [])"
  using assms by (simp add: persist_defs split: insert_reply.splits)

lemma persist_remote:
  assumes "init_error e = None" and "cd_CreatedAt d = 0"
  shows "remote (snd (persist_and_respond e d w)) =
           remote w @ [DBInsert ''customer_feedback'']
             @ (case feedback_reply e of Stored i \<Rightarrow> [DBInsert ''churn_predictions'']
                | _ \<Rightarrow> [])"
  using assms by (simp add: persist_defs split: insert_reply.splits)

lemma persist_feedback_failed:
  assumes "init_error e = None" and "cd_CreatedAt d = 0" and "\<forall>i. feedback_reply e \<noteq> Stored i"
  shows "fst (persist_and_respond e d w) = (500, ErrorBody ''Failed to store customer data.'')"
    and "churn_predictions (snd (persist_and_respond e d w)) = churn_predictions w"
    and "customer_feedback (snd (persist_and_respond e d w)) =
           customer_feedback w
             @ (case feedback_reply e of ExecError \<Rightarrow> []
                | StoredBadReply i \<Rightarrow> [stored_row i d w] | StoredNoRows i \<Rightarrow> [stored_row i d w]
                | Stored i \<Rightarrow> [])"
  using assms by (simp_all add: persist_defs split: insert_reply.splits)

lemma persist_prediction_failed:
  assumes "init_error e = None" and "cd_CreatedAt d = 0" and "feedback_reply e = Stored i"
    and "\<not> prediction_accepted e"
  shows "fst (persist_and_respond e d w) = (500, ErrorBody ''Failed to store churn prediction.'')"
    and "churn_predictions (snd (persist_and_respond e d w)) = churn_predictions w"
    and "customer_feedback (snd (persist_and_respond e d w)) =
           customer_feedback w @ [stored_row i d w]"
  using assms by (simp_all add: persist_defs)

lemma persist_success:
  assumes "init_error e = None" and "cd_CreatedAt d = 0" and "feedback_reply e = Stored i"
    and "prediction_accepted e"
  shows "fst (persist_and_respond e d w) =
           (200, ResultBody
              \<lparr>resp_CustomerID = i,
               resp_ChurnProbability = cp_ChurnProbability (stored_prediction i d w),
               resp_Reason = cp_Reason (stored_prediction i d w),
               resp_CommentSentiment = cd_CommentSentiment d,
               resp_CommentTopics = cd_CommentTopics d\<rparr>)"
    and "churn_predictions (snd (persist_and_respond e d w)) =
           churn_predictions w @ [stored_prediction i d w]"
    and "customer_feedback (snd (persist_and_respond e d w)) =
           customer_feedback w @ [stored_row i d w]"
  using assms by (simp_all add: persist_defs)

lemma stored_ids [simp]:
  "cd_ID (stored_row i d w) = i" "cp_CustomerID (stored_prediction i d w) = i"
  by (simp_all add: stored_row_def stored_prediction_def)

lemma enriched_simps [simp]:
  "cd_CreatedAt (enriched e score t w) = 0" "cd_NLSScore (enriched e score t w) = score"
  "cd_Feedback (enriched e score t w) = t"
  by (simp_all add: enriched_def)

lemma persist_status:
  assumes "init_error e = None" and "cd_CreatedAt d = 0"
  shows "fst (fst (persist_and_respond e d w)) = 200 \<longleftrightarrow>
           (\<exists>i. feedback_reply e = Stored i) \<and> prediction_accepted e"
proof (cases "\<exists>i. feedback_reply e = Stored i")
  case True
  then obtain i where i: "feedback_reply e = Stored i" by blast
  show ?thesis
  proof (cases "prediction_accepted e")
    case True
    with assms i show ?thesis by (simp add: persist_success(1))
  next
    case False
    with assms i show ?thesis by (simp add: persist_prediction_failed(1))
  qed
next
  case False
  then have "\<forall>i. feedback_reply e \<noteq> Stored i" by blast
  with assms False show ?thesis by (simp add: persist_feedback_failed(1))
qed

lemma persist_fk_ok:
  assumes "init_error e = None" and "cd_CreatedAt d = 0" and "fk_ok w"
  shows "fk_ok (snd (persist_and_respond e d w))"
proof -
  have sub: "feedback_ids w \<subseteq> feedback_ids (snd (persist_and_respond e d w))"
  proof (cases "\<exists>i. feedback_reply e = Stored i")
    case True
    then obtain i where i: "feedback_reply e = Stored i" by blast
    show ?thesis
      using assms(1,2) i
      by (cases "prediction_accepted e")
         (auto simp: feedback_ids_def persist_success(3) persist_prediction_failed(3))
  next
    case False
    then have "\<forall>i. feedback_reply e \<noteq> Stored i" by blast
    from persist_feedback_failed(3) [OF assms(1,2) this, of w] show ?thesis
      by (auto simp: feedback_ids_def)
  qed
  show ?thesis
  proof (cases "(\<exists>i. feedback_reply e = Stored i) \<and> prediction_accepted e")
    case True
    then obtain i where i: "feedback_reply e = Stored i" and acc: "prediction_accepted e"
      by blast
    have "i \<in> feedback_ids (snd (persist_and_respond e d w))"
      by (simp add: feedback_ids_def persist_success(3) [OF assms(1,2) i acc])
    then show ?thesis
      using assms(3) sub
      by (auto simp: fk_ok_def persist_success(2) [OF assms(1,2) i acc])
  next
    case False
    have "churn_predictions (snd (persist_and_respond e d w)) = churn_predictions w"
    proof (cases "\<exists>i. feedback_reply e = Stored i")
      case True
      then obtain i where i: "feedback_reply e = Stored i" by blast
      with False have "\<not> prediction_accepted e" by simp
      from persist_prediction_failed(2) [OF assms(1,2) i this] show ?thesis .
    next
      case False
      then have "\<forall>i. feedback_reply e \<noteq> Stored i" by blast
      from persist_feedback_failed(2) [OF assms(1,2) this] show ?thesis .
    qed
    then show ?thesis
      using assms(3) sub by (auto simp: fk_ok_def)
  qed
qed

lemma PredictHandler_invalid:
  assumes "\<not> (\<exists>score t. valid_request e r score t)"
  shows "snd (PredictHandler e r w) = w" and "fst (fst (PredictHandler e r w)) \<noteq> 200"
proof -
  have "snd (PredictHandler e r w) = w \<and> fst (fst (PredictHandler e r w)) \<noteq> 200"
  proof (cases "init_error e")
    case (Some err)
    then show ?thesis by (simp add: PredictHandler_def RespondWithError_def)
  next
    case None
    show ?thesis
    proof (cases "Method r = ''POST''")
      case False
      with None show ?thesis
        by (simp add: PredictHandler_def RespondWithError_def SupabaseClient_nil_def)
    next
      case True
      show ?thesis
      proof (cases "Body r")
        case InvalidJSON
        with None True show ?thesis
          by (simp add: PredictHandler_def RespondWithError_def SupabaseClient_nil_def)
      next
        case (Decoded req)
        show ?thesis
        proof (cases "req_NLSScore req")
          case none: None
          with None True Decoded show ?thesis
            by (simp add: PredictHandler_def RespondWithError_def SupabaseClient_nil_def)
        next
          case (Some score)
          have req: "req = \<lparr>req_NLSScore = Some score, req_FeedbackText = req_FeedbackText req\<rparr>"
            using Some by (cases req) simp
          have "\<not> valid_request e r score (req_FeedbackText req)"
            using assms by blast
          then have "score < 0 \<or> 10 < score"
            using None True Decoded req by (auto simp: valid_request_def)
          with None True Decoded Some show ?thesis
            by (auto simp: PredictHandler_def RespondWithError_def SupabaseClient_nil_def)
        qed
      qed
    qed
  qed
  then show "snd (PredictHandler e r w) = w" and "fst (fst (PredictHandler e r w)) \<noteq> 200"
    by simp_all
qed

lemma PredictHandler_fk_ok:
  assumes "fk_ok w"
  shows "fk_ok (snd (PredictHandler e r w))"
proof (cases "\<exists>score t. valid_request e r score t")
  case True
  then obtain score t where v: "valid_request e r score t" by blast
  then have init: "init_error e = None" by (simp add: valid_request_def)
  have "fk_ok (after_enrichment e t w)"
    using assms by (simp add: fk_ok_def feedback_ids_def)
  then show ?thesis
    by (simp add: PredictHandler_valid [OF v] persist_fk_ok [OF init])
next
  case False
  then show ?thesis using assms by (simp add: PredictHandler_invalid(1))
qed

lemma delete_fk_ok: "fk_ok w \<Longrightarrow> fk_ok (db_delete_feedback i w)"
  by (auto simp: fk_ok_def feedback_ids_def db_delete_feedback_def)




text \<open>
  C5. Once the initialisation has succeeded and a POST body has decoded, a request without
  a rating is answered with 400 and "NLS score is required.", and a request whose rating is
  below 0 or above 10 with 400 and "NLS score must be between 0 and 10.". In both cases the
  world is returned as it was: no enrichment call, no insert, no clock read.
\<close>

theorem C5_validation:
  assumes "init_error e = None" and "Method r = ''POST''" and "Body r = Decoded req"
  shows "(req_NLSScore req = None \<longrightarrow>
            PredictHandler e r w = ((400, ErrorBody ''NLS score is required.''), w))
       \<and> (\<forall>score. req_NLSScore req = Some score \<and> (score < 0 \<or> 10 < score) \<longrightarrow>
            PredictHandler e r w =
              ((400, ErrorBody ''NLS score must be between 0 and 10.''), w))"
  using assms
  by (auto simp: PredictHandler_def RespondWithError_def SupabaseClient_nil_def)

theorem C5_witness:
  "PredictHandler healthy_env (post None ''fine'') empty_world
     = ((400, ErrorBody ''NLS score is required.''), empty_world)
   \<and> PredictHandler healthy_env (post (Some 11) ''fine'') empty_world
     = ((400, ErrorBody ''NLS score must be between 0 and 10.''), empty_world)
   \<and> PredictHandler healthy_env (post (Some (- 1)) ''fine'') empty_world
     = ((400, ErrorBody ''NLS score must be between 0 and 10.''), empty_world)"
  using C5_validation [of healthy_env "post None ''fine''"
          "\<lparr>req_NLSScore = None, req_FeedbackText = ''fine''\<rparr>" empty_world]
    C5_validation [of healthy_env "post (Some 11) ''fine''"
          "\<lparr>req_NLSScore = Some 11, req_FeedbackText = ''fine''\<rparr>" empty_world]
    C5_validation [of healthy_env "post (Some (- 1)) ''fine''"
          "\<lparr>req_NLSScore = Some (- 1), req_FeedbackText = ''fine''\<rparr>" empty_world]
  by (simp add: healthy_env_def post_def)

subsection \<open>The order of the steps\<close>




subsection \<open>The parent reference\<close>

text \<open>
  C3. For every request answered with 200, the feedback insert returned an identifier, the
  request added exactly one feedback row, stored under that identifier, and exactly one
  prediction row, whose parent reference is that identifier, and the response carries it;
  the prediction insert was entered, and its remote call made, after the feedback insert.
  Every request, and every cascading delete of a feedback row, keeps the property that each
  stored prediction references a stored feedback row.
\<close>

theorem C3_parent_reference:
  "(fst (fst (PredictHandler e r w)) = 200 \<longrightarrow>
      (\<exists>i row p body.
          feedback_reply e = Stored i
        \<and> customer_feedback (snd (PredictHandler e r w)) = customer_feedback w @ [row]
        \<and> cd_ID row = i
        \<and> churn_predictions (snd (PredictHandler e r w)) = churn_predictions w @ [p]
        \<and> cp_CustomerID p = i
        \<and> fst (PredictHandler e r w) = (200, ResultBody body) \<and> resp_CustomerID body = i
        \<and> steps (snd (PredictHandler e r w)) =
            steps w @ [GetSentiment, GetTopics, StoreFeedback, Scoring, StorePrediction]
        \<and> (\<exists>calls. remote (snd (PredictHandler e r w)) =
              remote w @ calls
                @ [DBInsert ''customer_feedback'', DBInsert ''churn_predictions''])))
   \<and> (fk_ok w \<longrightarrow> fk_ok (snd (PredictHandler e r w)))
   \<and> (fk_ok w \<longrightarrow> fk_ok (db_delete_feedback j w))"
proof (intro conjI impI)
  assume ok: "fst (fst (PredictHandler e r w)) = 200"
  then have "\<exists>score t. valid_request e r score t"
    using PredictHandler_invalid(2) [of e r w] by blast
  then obtain score t where v: "valid_request e r score t" by blast
  then have init: "init_error e = None" by (simp add: valid_request_def)
  note h = PredictHandler_valid [OF v]
  let ?d = "enriched e score t w" and ?w = "after_enrichment e t w"
  have c0: "cd_CreatedAt ?d = 0" by simp
  from ok have "(\<exists>i. feedback_reply e = Stored i) \<and> prediction_accepted e"
    by (simp add: h persist_status [OF init c0])
  then obtain i where i: "feedback_reply e = Stored i" and acc: "prediction_accepted e"
    by blast
  note s = persist_success [OF init c0 i acc, of ?w]
  have "feedback_reply e = Stored i
        \<and> customer_feedback (snd (PredictHandler e r w)) = customer_feedback w @ [stored_row i ?d ?w]
        \<and> cd_ID (stored_row i ?d ?w) = i
        \<and> churn_predictions (snd (PredictHandler e r w))
            = churn_predictions w @ [stored_prediction i ?d ?w]
        \<and> cp_CustomerID (stored_prediction i ?d ?w) = i
        \<and> fst (PredictHandler e r w) = (200, ResultBody
              \<lparr>resp_CustomerID = i,
               resp_ChurnProbability = cp_ChurnProbability (stored_prediction i ?d ?w),
               resp_Reason = cp_Reason (stored_prediction i ?d ?w),
               resp_CommentSentiment = cd_CommentSentiment ?d,
               resp_CommentTopics = cd_CommentTopics ?d\<rparr>)
        \<and> resp_CustomerID \<lparr>resp_CustomerID = i,
               resp_ChurnProbability = cp_ChurnProbability (stored_prediction i ?d ?w),
               resp_Reason = cp_Reason (stored_prediction i ?d ?w),
               resp_CommentSentiment = cd_CommentSentiment ?d,
               resp_CommentTopics = cd_CommentTopics ?d\<rparr> = i
        \<and> steps (snd (PredictHandler e r w)) =
            steps w @ [GetSentiment, GetTopics, StoreFeedback, Scoring, StorePrediction]
        \<and> (\<exists>calls. remote (snd (PredictHandler e r w)) =
              remote w @ calls
                @ [DBInsert ''customer_feedback'', DBInsert ''churn_predictions''])"
    using i by (simp add: h s persist_steps [OF init c0] persist_remote [OF init c0])
  then show "\<exists>i row p body.
          feedback_reply e = Stored i
        \<and> customer_feedback (snd (PredictHandler e r w)) = customer_feedback w @ [row]
        \<and> cd_ID row = i
        \<and> churn_predictions (snd (PredictHandler e r w)) = churn_predictions w @ [p]
        \<and> cp_CustomerID p = i
        \<and> fst (PredictHandler e r w) = (200, ResultBody body) \<and> resp_CustomerID body = i
        \<and> steps (snd (PredictHandler e r w)) =
            steps w @ [GetSentiment, GetTopics, StoreFeedback, Scoring, StorePrediction]
        \<and> (\<exists>calls. remote (snd (PredictHandler e r w)) =
              remote w @ calls
                @ [DBInsert ''customer_feedback'', DBInsert ''churn_predictions''])"
    by blast
next
  assume "fk_ok w"
  then show "fk_ok (snd (PredictHandler e r w))" by (rule PredictHandler_fk_ok)
next
  assume "fk_ok w"
  then show "fk_ok (db_delete_feedback j w)" by (rule delete_fk_ok)
qed

subsection \<open>A failed prediction insert\<close>

text \<open>
  C8. When the feedback insert has succeeded and the prediction insert fails, the response
  is 500 with "Failed to store churn prediction.", the feedback row stays in its table, no
  prediction row is added, and the last remote calls of the request are the two inserts:
  nothing is issued to undo the first.
\<close>

theorem C8_not_transactional:
  assumes "valid_request e r score t" and "feedback_reply e = Stored i"
    and "\<not> prediction_accepted e"
  shows "fst (PredictHandler e r w) = (500, ErrorBody ''Failed to store churn prediction.'')
       \<and> customer_feedback (snd (PredictHandler e r w)) =
           customer_feedback w @ [stored_row i (enriched e score t w) (after_enrichment e t w)]
       \<and> cd_ID (stored_row i (enriched e score t w) (after_enrichment e t w)) = i
       \<and> churn_predictions (snd (PredictHandler e r w)) = churn_predictions w
       \<and> remote (snd (PredictHandler e r w)) =
           remote (after_enrichment e t w)
             @ [DBInsert ''customer_feedback'', DBInsert ''churn_predictions'']
       \<and> steps (snd (PredictHandler e r w)) =
           steps w @ [GetSentiment, GetTopics, StoreFeedback, Scoring, StorePrediction]"
proof -
  from assms(1) have init: "init_error e = None" by (simp add: valid_request_def)
  have c0: "cd_CreatedAt (enriched e score t w) = 0" by simp
  show ?thesis
    using assms(2)
    by (simp add: PredictHandler_valid [OF assms(1)]
          persist_prediction_failed [OF init c0 assms(2,3)]
          persist_steps [OF init c0] persist_remote [OF init c0])
qed

subsection \<open>Enrichment failures\<close>


theorem C3_witness:
  "fst (fst (PredictHandler healthy_env (post (Some 2) ''Slow Service'') empty_world)) = 200
   \<and> fk_ok empty_world
   \<and> (\<exists>row p body.
        customer_feedback (snd (PredictHandler healthy_env (post (Some 2) ''Slow Service'')
          empty_world)) = [row]
        \<and> cd_ID row = ''f-1''
        \<and> churn_predictions (snd (PredictHandler healthy_env (post (Some 2) ''Slow Service'')
          empty_world)) = [p]
        \<and> cp_CustomerID p = ''f-1''
        \<and> fst (PredictHandler healthy_env (post (Some 2) ''Slow Service'') empty_world)
            = (200, ResultBody body)
        \<and> resp_CustomerID body = ''f-1'')
   \<and> fk_ok (snd (PredictHandler healthy_env (post (Some 2) ''Slow Service'') empty_world))
   \<and> fk_ok (db_delete_feedback ''f-1'' empty_world)"
proof -
  let ?r = "post (Some 2) ''Slow Service''"
  have v: "valid_request healthy_env ?r 2 ''Slow Service''"
    by (simp add: valid_request_def healthy_env_def post_def)
  have init: "init_error healthy_env = None" by (simp add: healthy_env_def)
  have ok: "fst (fst (PredictHandler healthy_env ?r empty_world)) = 200"
    by (simp add: PredictHandler_valid [OF v] persist_status [OF init])
       (simp add: healthy_env_def)
  have fk: "fk_ok empty_world" by (simp add: fk_ok_def empty_world_def)
  have tables: "customer_feedback empty_world = []" "churn_predictions empty_world = []"
    by (simp_all add: empty_world_def)
  have reply: "feedback_reply healthy_env = Stored ''f-1''" by (simp add: healthy_env_def)
  from C3_parent_reference [of healthy_env ?r empty_world "''f-1''"] ok fk
  have "(\<exists>i row p body.
          feedback_reply healthy_env = Stored i
        \<and> customer_feedback (snd (PredictHandler healthy_env ?r empty_world))
            = customer_feedback empty_world @ [row]
        \<and> cd_ID row = i
        \<and> churn_predictions (snd (PredictHandler healthy_env ?r empty_world))
            = churn_predictions empty_world @ [p]
        \<and> cp_CustomerID p = i
        \<and> fst (PredictHandler healthy_env ?r empty_world) = (200, ResultBody body)
        \<and> resp_CustomerID body = i)"
    and "fk_ok (snd (PredictHandler healthy_env ?r empty_world))"
    and "fk_ok (db_delete_feedback ''f-1'' empty_world)"
    by blast+
  with ok fk show ?thesis
    unfolding tables reply by auto
qed

theorem C8_witness:
  "valid_request (healthy_env\<lparr>prediction_accepted := False\<rparr>)
     (post (Some 2) ''Slow Service'') 2 ''Slow Service''
   \<and> feedback_reply (healthy_env\<lparr>prediction_accepted := False\<rparr>) = Stored ''f-1''
   \<and> \<not> prediction_accepted (healthy_env\<lparr>prediction_accepted := False\<rparr>)
   \<and> fst (PredictHandler (healthy_env\<lparr>prediction_accepted := False\<rparr>)
            (post (Some 2) ''Slow Service'') empty_world)
       = (500, ErrorBody ''Failed to store churn prediction.'')
   \<and> customer_feedback (snd (PredictHandler (healthy_env\<lparr>prediction_accepted := False\<rparr>)
            (post (Some 2) ''Slow Service'') empty_world))
       = [\<lparr>cd_ID = ''f-1'', cd_NLSScore = 2, cd_Feedback = ''Slow Service'', cd_CreatedAt = 1,
           cd_CommentSentiment = ''NEGATIVE'', cd_CommentTopics = [''speed'']\<rparr>]
   \<and> churn_predictions (snd (PredictHandler (healthy_env\<lparr>prediction_accepted := False\<rparr>)
            (post (Some 2) ''Slow Service'') empty_world))
       = []"
proof -
  let ?e = "healthy_env\<lparr>prediction_accepted := False\<rparr>"
  let ?r = "post (Some 2) ''Slow Service''"
  have v: "valid_request ?e ?r 2 ''Slow Service''"
    by (simp add: valid_request_def healthy_env_def post_def)
  have f: "feedback_reply ?e = Stored ''f-1''" by (simp add: healthy_env_def)
  have n: "\<not> prediction_accepted ?e" by simp
  have row: "stored_row ''f-1'' (enriched ?e 2 ''Slow Service'' empty_world)
               (after_enrichment ?e ''Slow Service'' empty_world)
             = \<lparr>cd_ID = ''f-1'', cd_NLSScore = 2, cd_Feedback = ''Slow Service'',
                cd_CreatedAt = 1, cd_CommentSentiment = ''NEGATIVE'',
                cd_CommentTopics = [''speed'']\<rparr>"
    by (simp add: stored_row_def enriched_def handler_sentiment_def handler_topics_def
          after_sentiment_def GetSentimentFromHF_def GetTopicsFromHF_def candidateTopics_def
          TopicScoreThreshold_def healthy_env_def empty_world_def string_defs Let_def)
  have tables: "customer_feedback empty_world = []" "churn_predictions empty_world = []"
    by (simp_all add: empty_world_def)
  show ?thesis
    using v f n C8_not_transactional [OF v f n, of empty_world]
    unfolding row tables by simp
qed



end
